theory Spec2Isabelle
  imports Main "HOL-Library.Word"
begin

section \<open>Python values, tracebacks and exceptions\<close>

text \<open>
  The values that travel through the exchange file. A float is kept as the 64 bits of
  its IEEE double, so that equality of values is equality bit for bit. \<open>PObject\<close> is a
  live object that pickle refuses (a ctypes pointer, a socket, a loaded library).
\<close>

datatype pyval =
    PNone
  | PBool bool
  | PInt int
  | PFloat "64 word"
  | PComplex "64 word" "64 word"
  | PStr string
  | PTuple "pyval list"
  | PList "pyval list"
  | PDict "(pyval \<times> pyval) list"
  | PObject string

text \<open>One entry of \<open>traceback.extract_tb\<close>: (filename, line number, function name, text).\<close>

record frame =
  tb_file :: string
  tb_lineno :: nat
  tb_name :: string
  tb_text :: string

text \<open>
  A raised exception: \<open>exc_type.__name__\<close>, \<open>str(exc_value)\<close>, whether the class derives
  from \<open>Exception\<close> (SystemExit and KeyboardInterrupt do not), and the traceback entries
  below the frame that observes it, outermost first.
\<close>

record exn =
  exc_name :: string
  exc_value :: string
  exc_is_Exception :: bool
  exc_tb :: "frame list"

definition builtin_error :: "string \<Rightarrow> string \<Rightarrow> exn" where
  "builtin_error name msg =
     \<lparr>exc_name = name, exc_value = msg, exc_is_Exception = True, exc_tb = []\<rparr>"

section \<open>Strings\<close>

definition digit_char :: "nat \<Rightarrow> char" where
  "digit_char d = ''0123456789'' ! (d mod 10)"

fun string_of_nat :: "nat \<Rightarrow> string" where
  "string_of_nat n =
     (if n < 10 then [digit_char n] else string_of_nat (n div 10) @ [digit_char (n mod 10)])"

declare string_of_nat.simps [simp del]

definition is_digit :: "char \<Rightarrow> bool" where
  "is_digit c = (c \<in> set ''0123456789'')"

definition digits_value :: "string \<Rightarrow> nat" where
  "digits_value ds = foldl (\<lambda>a c. 10 * a + (of_char c - 48)) 0 ds"

text \<open>
  Python's \<open>int(s)\<close> on a string: an optional sign and decimal digits, ValueError
  otherwise. (Surrounding whitespace cannot occur in a request path, and the digit
  separators of later interpreters are left out.)
\<close>

definition py_int :: "string \<Rightarrow> exn + int" where
  "py_int s =
     (let body = (if s \<noteq> [] \<and> (hd s = CHR ''-'' \<or> hd s = CHR ''+'') then tl s else s) in
      if body \<noteq> [] \<and> list_all is_digit body
      then Inr (if s \<noteq> [] \<and> hd s = CHR ''-'' then - int (digits_value body)
                else int (digits_value body))
      else Inl (builtin_error ''ValueError''
                  (''invalid literal for int() with base 10: '' @ [CHR 0x27] @ s @ [CHR 0x27])))"

text \<open>\<open>s.split(sep, maxsplit)\<close>: at most \<open>maxsplit\<close> cuts, from the left.\<close>

fun split_max :: "char \<Rightarrow> nat \<Rightarrow> string \<Rightarrow> string list" where
  "split_max sep 0 s = [s]"
| "split_max sep (Suc n) s =
     (if sep \<in> set s
      then takeWhile (\<lambda>c. c \<noteq> sep) s # split_max sep n (tl (dropWhile (\<lambda>c. c \<noteq> sep) s))
      else [s])"

text \<open>\<open>needle in hay\<close> on strings.\<close>

fun substring_of :: "string \<Rightarrow> string \<Rightarrow> bool" where
  "substring_of needle [] = (needle = [])"
| "substring_of needle (c # cs) =
     (take (length needle) (c # cs) = needle \<or> substring_of needle cs)"

definition lower_char :: "char \<Rightarrow> char" where
  "lower_char c =
     (if 65 \<le> (of_char c :: nat) \<and> (of_char c :: nat) \<le> 90
      then char_of ((of_char c :: nat) + 32) else c)"

definition lower :: "string \<Rightarrow> string" where
  "lower s = map lower_char s"

text \<open>\<open>fp.readlines()\<close>: the lines of a text, each keeping its newline.\<close>

fun readlines :: "string \<Rightarrow> string list" where
  "readlines [] = []"
| "readlines (c # cs) =
     (if c = CHR 0x0A then [c] # readlines cs
      else (case readlines cs of [] \<Rightarrow> [[c]] | l # ls \<Rightarrow> (c # l) # ls))"

text \<open>\<open>lines.insert(-1, x)\<close>: before the last element; at the front of an empty list.\<close>

definition insert_before_last :: "'a \<Rightarrow> 'a list \<Rightarrow> 'a list" where
  "insert_before_last x xs = (if xs = [] then [x] else butlast xs @ [x, last xs])"

section \<open>Files\<close>

text \<open>
  A file holds text, or a sequence of independently pickled values, each tagged with
  the protocol it was written with. \<open>open(p, 'wb')\<close> creates or truncates the file; it
  fails on a directory.
\<close>

datatype content = Text string | Pickles "(nat \<times> pyval) list"

datatype node = File content | Dir

type_synonym filesystem = "string \<Rightarrow> node option"

definition isfile :: "filesystem \<Rightarrow> string \<Rightarrow> bool" where
  "isfile f p = (case f p of Some (File c) \<Rightarrow> True | _ \<Rightarrow> False)"

definition open_read :: "filesystem \<Rightarrow> string \<Rightarrow> exn + content" where
  "open_read f p =
     (case f p of
        Some (File c) \<Rightarrow> Inr c
      | Some Dir \<Rightarrow> Inl (builtin_error ''IsADirectoryError''
                          (''[Errno 21] Is a directory: '' @ [CHR 0x27] @ p @ [CHR 0x27]))
      | None \<Rightarrow> Inl (builtin_error ''FileNotFoundError''
                       (''[Errno 2] No such file or directory: '' @ [CHR 0x27] @ p @ [CHR 0x27])))"

definition open_write :: "filesystem \<Rightarrow> string \<Rightarrow> content \<Rightarrow> exn + filesystem" where
  "open_write f p blank =
     (case f p of
        Some Dir \<Rightarrow> Inl (builtin_error ''IsADirectoryError''
                          (''[Errno 21] Is a directory: '' @ [CHR 0x27] @ p @ [CHR 0x27]))
      | _ \<Rightarrow> Inr (f(p \<mapsto> File blank)))"

section \<open>Pickle\<close>

fun picklable :: "pyval \<Rightarrow> bool" where
  "picklable (PObject d) = False"
| "picklable (PTuple xs) = list_all picklable xs"
| "picklable (PList xs) = list_all picklable xs"
| "picklable (PDict kvs) = list_all (\<lambda>(k, v). picklable k \<and> picklable v) kvs"
| "picklable v = True"

text \<open>
  \<open>pickle.load(f)\<close> reads the next pickled value of the stream and leaves the rest.
\<close>

definition pickle_load :: "content \<Rightarrow> exn + (pyval \<times> content)" where
  "pickle_load c =
     (case c of
        Pickles ((p, v) # rest) \<Rightarrow> Inr (v, Pickles rest)
      | Pickles [] \<Rightarrow> Inl (builtin_error ''EOFError'' ''Ran out of input'')
      | Text [] \<Rightarrow> Inl (builtin_error ''EOFError'' ''Ran out of input'')
      | Text (x # xs) \<Rightarrow> Inl (builtin_error ''UnpicklingError'' ''invalid load key''))"

text \<open>
  \<open>pickle.dump(obj, f, protocol)\<close>: a protocol above the interpreter's highest is a
  ValueError, a negative one selects the highest; the result is the tagged value that
  is appended to the stream.
\<close>

definition pickle_dump :: "nat \<Rightarrow> pyval \<Rightarrow> int \<Rightarrow> exn + (nat \<times> pyval)" where
  "pickle_dump highest obj protocol =
     (if protocol > int highest
      then Inl (builtin_error ''ValueError''
                  (''pickle protocol must be <= '' @ string_of_nat highest))
      else if \<not> picklable obj
      then Inl (builtin_error ''PicklingError'' ''cannot pickle object'')
      else Inr (if protocol < 0 then highest else nat protocol, obj))"


section \<open>The environment of the interpreter\<close>

text \<open>
  What the loader and the server take from outside this repository: the platform flags of
  the package, \<open>os.path\<close>, \<open>sys.executable\<close>, ctypes, Python for .NET (\<open>clr\<close>), the
  import system, the XML parser, pickle's highest protocol, and the file and source
  lines of the server module as a traceback shows them.
\<close>

datatype xml = Element (tag: string) (attrib: "(string \<times> string) list") (children: "xml list")

record assembly =
  exported_namespaces :: "string list"

record environment =
  IS_WINDOWS :: bool
  IS_LINUX :: bool
  IS_MAC :: bool
  splitext :: "string \<Rightarrow> string \<times> string"
  abspath :: "string \<Rightarrow> string"
  os_path_split :: "string \<Rightarrow> string \<times> string"
  sys_executable :: string
  ctypes_load :: "string \<Rightarrow> string \<Rightarrow> exn option"
  clr_importable :: bool
  Assembly_LoadFile :: "string \<Rightarrow> exn + assembly"
  clr_AddReference :: "string \<Rightarrow> exn option"
  import_module :: "string \<Rightarrow> exn option"
  xml_parse :: "string \<Rightarrow> xml option"
  HIGHEST_PROTOCOL :: nat
  server32_file :: string
  server32_source :: "nat \<Rightarrow> string"

section \<open>The state of the process\<close>

text \<open>
  The trace records, in order, what the process does to the outside: files it opens,
  assemblies it asks the runtime to load, libraries it opens through ctypes, sockets it
  binds, threads it starts and methods of the server it invokes on the current thread.
\<close>

datatype event =
    EvOpen string string
  | EvLoadFile string
  | EvCtypes string string
  | EvBind string int
  | EvThreadStart string
  | EvInvoke string "pyval list" "(string \<times> pyval) list"

text \<open>What the handler writes to the connection.\<close>

datatype http_out =
    StatusLine nat
  | Header string string
  | EndHeaders
  | Body string

record world =
  fs :: filesystem
  sys_path :: "string list"
  logged :: "string list"
  listening :: "(string \<times> int) list"
  wire :: "http_out list"
  console :: "string list"
  trace :: "event list"

definition emit :: "event \<Rightarrow> world \<Rightarrow> world" where
  "emit e w = w\<lparr>trace := trace w @ [e]\<rparr>"

text \<open>\<open>logging.log(logging.WARNING, msg)\<close>.\<close>

definition logging_warning :: "string \<Rightarrow> world \<Rightarrow> world" where
  "logging_warning msg w = w\<lparr>logged := logged w @ [msg]\<rparr>"

section \<open>The library loader (load\_library.py)\<close>

definition NET_FRAMEWORK_DESCRIPTION :: string where
  \<open>NET_FRAMEWORK_DESCRIPTION =
     ''\<newline>'' @
     ''<!--\<newline>'' @
     ''  Created by the MSL-LoadLib package.\<newline>'' @
     ''\<newline>'' @
     ''  By default, applications that target the .NET Framework version 4.0+ cannot load assemblies from\<newline>'' @
     ''  previous .NET Framework versions. You must add and modify the "app".config file and set the\<newline>'' @
     ''  useLegacyV2RuntimeActivationPolicy property.\<newline>'' @
     ''\<newline>'' @
     ''  See http://support.microsoft.com/kb/2572158 for an overview.\<newline>'' @
     ''\<newline>'' @
     ''  For example, Python for .NET (pythonnet, http://pythonnet.github.io/) only works with .NET 4.0+\<newline>'' @
     ''  and therefore it cannot automatically load a shared library that was compiled with .NET <4.0. If\<newline>'' @
     ''  you try to load the library and a System.IO.FileNotFoundException is raised then that probably\<newline>'' @
     ''  means that the library is from .NET <4.0.\<newline>'' @
     ''\<newline>'' @
     ''  The System.IO.FileNotFoundException exception will also be raised if the folder that the DLL is\<newline>'' @
     ''  located in is not within sys.path, so first make sure that the shared library is visible to the\<newline>'' @
     ''  Python interpreter.\<newline>'' @
     ''\<newline>'' @
     ''  NOTE: To install pythonnet, run:\<newline>'' @
     ''  $ pip install pythonnet\<newline>'' @
     ''\<newline>'' @
     ''  Example using SpelNetLib.dll, which is a .NET library for the EPSON RC+ 6-axis robot\<newline>'' @
     ''  http://www.d.umn.edu/~rlindek1/ME4135_11/e_SPEL%2BRef54_r1.pdf\<newline>'' @
     ''\<newline>'' @
     ''  >>> import clr\<newline>'' @
     ''  >>> clr.AddReference("SpelNetLib")\<newline>'' @
     ''\<newline>'' @
     ''  If calling AddReference raises the following exception\<newline>'' @
     ''\<newline>'' @
     ''      System.IO.FileNotFoundException: Unable to find assembly 'SpelNetLib.dll'\<newline>'' @
     ''\<newline>'' @
     ''  and you are certain that the path to the library is in sys.path, then you can use the following\<newline>'' @
     ''  to obtain a more detailed description of the exception:\<newline>'' @
     ''\<newline>'' @
     ''  >>> from clr import System\<newline>'' @
     ''  >>> from System import Reflection\<newline>'' @
     ''  >>> Reflection.Assembly.LoadFile('path/to/dll/SpelNetLib.dll')\<newline>'' @
     ''-->\<newline>''\<close>

definition NET_FRAMEWORK_FIX :: string where
  \<open>NET_FRAMEWORK_FIX =
     ''\<newline>'' @
     ''    <startup useLegacyV2RuntimeActivationPolicy="true">\<newline>'' @
     ''        <supportedRuntime version="v4.0" />\<newline>'' @
     ''        <supportedRuntime version="v2.0.50727" />\<newline>'' @
     ''    </startup>\<newline>''\<close>

datatype libobj = CDLL string | WinDLL string | OleDLL string | NetModule string

record LoadLibrary =
  path :: string
  lib :: libobj
  net :: "assembly option"

text \<open>\<open>LoadLibrary.is_python_net_installed\<close>: try to import clr, warn when it fails.\<close>

definition is_python_net_installed :: "environment \<Rightarrow> world \<Rightarrow> bool \<times> world" where
  "is_python_net_installed env w =
     (if clr_importable env then (True, w)
      else (False, logging_warning
              ''Python for .NET <pythonnet> is not installed. Cannot load a .NET library.'' w))"

text \<open>
  The element \<open>root.find('startup/[@useLegacyV2RuntimeActivationPolicy]')\<close> selects: the
  first child with tag startup that carries the attribute.
\<close>

definition find_policy :: "xml \<Rightarrow> xml option" where
  "find_policy root =
     find (\<lambda>c. tag c = ''startup'' \<and>
                map_of (attrib c) ''useLegacyV2RuntimeActivationPolicy'' \<noteq> None)
       (children root)"

definition parse_config :: "environment \<Rightarrow> content \<Rightarrow> xml option" where
  "parse_config env c = (case c of Text s \<Rightarrow> xml_parse env s | Pickles ps \<Rightarrow> None)"

definition text_of :: "content \<Rightarrow> string" where
  "text_of c = (case c of Text s \<Rightarrow> s | Pickles ps \<Rightarrow> [])"

text \<open>
  \<open>LoadLibrary.check_dot_net_config(py_exe_path)\<close>: returns (status, message) and may write
  the configuration file beside the executable. Opening that file for writing is the
  one step that can raise.
\<close>

definition check_dot_net_config ::
  "environment \<Rightarrow> string \<Rightarrow> world \<Rightarrow> (exn + (int \<times> string)) \<times> world" where
  \<open>check_dot_net_config env py_exe_path w =
     (let config_path = py_exe_path @ ''.config'' in
      if isfile (fs w) config_path then
        (case open_read (fs w) config_path of
           Inl e \<Rightarrow> (Inl e, emit (EvOpen config_path ''r'') w)
         | Inr c \<Rightarrow>
            (let w1 = emit (EvOpen config_path ''r'') w;
                 lines = readlines (text_of c) in
             case parse_config env c of
               None \<Rightarrow>
                 (let msg = ''Invalid XML file '' @ config_path @
                            ''\<newline>Cannot create useLegacyV2RuntimeActivationPolicy property.''
                  in (Inr (- 1, msg), logging_warning msg w1))
             | Some root \<Rightarrow>
                 if \<not> tag root = ''configuration'' then
                   (let msg = ''The root tag in '' @ config_path @ '' is "'' @ tag root @ ''".\<newline>'' @
                         ''It must be "configuration" in order to create a .NET Framework config file '' @
                         ''to enable the useLegacyV2RuntimeActivationPolicy property.\<newline>'' @
                         ''To load an assembly from a .NET Framework version <4.0 the '' @
                         ''following must be in '' @ config_path @ '':\<newline>'' @
                         ''<configuration>'' @ NET_FRAMEWORK_FIX @ ''</configuration>\<newline>''
                    in (Inr (- 1, msg), logging_warning msg w1))
                 else
                   (case find_policy root of
                      None \<Rightarrow>
                        (let lines2 = insert_before_last NET_FRAMEWORK_FIX lines in
                         case open_write (fs w1) config_path (Text []) of
                           Inl e \<Rightarrow> (Inl e, emit (EvOpen config_path ''w'') w1)
                         | Inr f2 \<Rightarrow>
                            (Inr (1, ''Added the useLegacyV2RuntimeActivationPolicy property to '' @
                                     config_path @
                                     ''\<newline>Try again to see if Python can now load the .NET library.\<newline>''),
                             emit (EvOpen config_path ''w'')
                               (w1\<lparr>fs := f2(config_path \<mapsto> File (Text (concat lines2)))\<rparr>)))
                    | Some policy \<Rightarrow>
                        (case map_of (attrib policy) ''useLegacyV2RuntimeActivationPolicy'' of
                           None \<Rightarrow> (Inl (builtin_error ''KeyError''
                                           ([CHR 0x27] @ ''useLegacyV2RuntimeActivationPolicy'' @ [CHR 0x27])), w1)
                         | Some v \<Rightarrow>
                            if \<not> lower v = ''true'' then
                              (let msg = ''The useLegacyV2RuntimeActivationPolicy in '' @ config_path @
                                         '' is False\<newline>'' @
                                         ''Cannot load an assembly from a .NET Framework version <4.0.''
                               in (Inr (- 1, msg), logging_warning msg w1))
                            else (Inr (0, ''The useLegacyV2RuntimeActivationPolicy property is enabled''),
                                  w1)))))
      else
        (case open_write (fs w) config_path (Text []) of
           Inl e \<Rightarrow> (Inl e, emit (EvOpen config_path ''w'') w)
         | Inr f2 \<Rightarrow>
            (Inr (1, ''Added the useLegacyV2RuntimeActivationPolicy property to '' @ config_path @
                     ''\<newline>to fix the "System.IO.FileLoadException: Mixed mode assembly..." error.\<newline>'' @
                     ''Try again to see if Python can now load the .NET library.\<newline>''),
             emit (EvOpen config_path ''w'')
               (w\<lparr>fs := f2(config_path \<mapsto> File (Text
                   (''<?xml version ="1.0"?>'' @ NET_FRAMEWORK_DESCRIPTION @ ''<configuration>'' @
                    NET_FRAMEWORK_FIX @ ''</configuration>\<newline>'')))\<rparr>))))\<close>

text \<open>
  \<open>LoadLibrary.__init__\<close>, first block: assume a default extension if none was given.
\<close>

definition default_extension :: "environment \<Rightarrow> string \<Rightarrow> string" where
  "default_extension env p =
     (if \<not> snd (splitext env p) \<noteq> [] then
        (if IS_WINDOWS env then p @ ''.dll''
         else if IS_LINUX env then p @ ''.so''
         else if IS_MAC env then p @ ''.dylib''
         else p)
      else p)"

text \<open>\<open>ctypes.CDLL(path)\<close>, \<open>ctypes.WinDLL(path)\<close>, \<open>ctypes.OleDLL(path)\<close>.\<close>

definition ctypes_open ::
  "environment \<Rightarrow> string \<Rightarrow> (string \<Rightarrow> libobj) \<Rightarrow> string \<Rightarrow> world \<Rightarrow> (exn + LoadLibrary) \<times> world" where
  "ctypes_open env cls mk p w =
     (case ctypes_load env cls p of
        Some e \<Rightarrow> (Inl e, emit (EvCtypes cls p) w)
      | None \<Rightarrow> (Inr \<lparr>path = p, lib = mk p, net = None\<rparr>, emit (EvCtypes cls p) w))"

text \<open>\<open>LoadLibrary.__init__\<close>, the branch of a .NET library once clr is imported.\<close>

definition load_net :: "environment \<Rightarrow> string \<Rightarrow> world \<Rightarrow> (exn + LoadLibrary) \<times> world" where
  \<open>load_net env p w =
     (let w1 = emit (EvLoadFile p) w in
      case Assembly_LoadFile env p of
        Inl err \<Rightarrow>
          if exc_name err = ''FileLoadException'' then
            (if substring_of ''Mixed mode assembly'' (exc_value err) then
               (case check_dot_net_config env (sys_executable env) w1 of
                  (Inl e, w2) \<Rightarrow> (Inl e, w2)
                | (Inr (status, msg), w2) \<Rightarrow>
                    if \<not> status = 0 then (Inl (builtin_error ''IOError'' msg), w2)
                    else (Inl (builtin_error ''IOError''
                                (''Checking .NET config returned "'' @ msg @ ''"'' @
                                 '' and still cannot load library.\<newline>'' @ exc_value err)), w2))
             else (Inl (builtin_error ''IOError''
                          ''The above "System.IO.FileLoadException" is not handled.\<newline>''), w1))
          else (Inl err, w1)
      | Inr a \<Rightarrow>
          (let w2 = w1\<lparr>sys_path := fst (os_path_split env p) # sys_path w1\<rparr> in
           case clr_AddReference env (fst (splitext env (snd (os_path_split env p)))) of
             Some e \<Rightarrow> (Inl e, w2)
           | None \<Rightarrow>
              (case exported_namespaces a of
                 [] \<Rightarrow> (Inl (builtin_error ''IndexError'' ''list index out of range''), w2)
               | ns # others \<Rightarrow>
                  (case import_module env ns of
                     Some e \<Rightarrow> (Inl e, w2)
                   | None \<Rightarrow> (Inr \<lparr>path = p, lib = NetModule ns, net = Some a\<rparr>, w2)))))\<close>

text \<open>\<open>LoadLibrary.__init__(path, libtype)\<close>.\<close>

definition LoadLibrary_init ::
  "environment \<Rightarrow> string \<Rightarrow> string \<Rightarrow> world \<Rightarrow> (exn + LoadLibrary) \<times> world" where
  "LoadLibrary_init env p0 libtype w =
     (let p = abspath env (default_extension env p0) in
      if \<not> isfile (fs w) p then
        (Inl (builtin_error ''IOError'' (''Cannot find the shared library '' @ p @ [CHR 0x0A])), w)
      else if libtype = ''cdll'' then ctypes_open env ''CDLL'' CDLL p w
      else if libtype = ''windll'' then ctypes_open env ''WinDLL'' WinDLL p w
      else if libtype = ''oledll'' then ctypes_open env ''OleDLL'' OleDLL p w
      else if libtype = ''net'' then
        (case is_python_net_installed env w of
           (True, w1) \<Rightarrow> load_net env p w1
         | (False, w1) \<Rightarrow>
             (Inl (builtin_error ''TypeError'' (''Invalid library type: '' @ libtype)), w1))
      else (Inl (builtin_error ''TypeError'' (''Invalid library type: '' @ libtype)), w))"

section \<open>The server (server32.py)\<close>

text \<open>
  What \<open>getattr(self.server, name)\<close> can find on the instance of the subclass: a method,
  which may touch the file system and returns a value or raises, or a plain value.
\<close>

datatype attr =
    Method "pyval list \<Rightarrow> (string \<times> pyval) list \<Rightarrow> filesystem \<Rightarrow> (exn + pyval) \<times> filesystem"
  | Value pyval

record Server32 =
  class_name :: string
  attrs :: "string \<Rightarrow> attr option"
  server_address :: "string \<times> int"
  quiet :: bool
  library :: LoadLibrary

text \<open>The property \<open>Server32.path\<close>.\<close>

definition Server32_path :: "Server32 \<Rightarrow> string" where
  "Server32_path server = path (library server)"

text \<open>\<open>int(port)\<close>: the port arrives as an integer or as the text of one.\<close>

definition int_of_port :: "pyval \<Rightarrow> exn + int" where
  "int_of_port port =
     (case port of
        PInt n \<Rightarrow> Inr n
      | PBool b \<Rightarrow> Inr (if b then 1 else 0)
      | PStr s \<Rightarrow> py_int s
      | _ \<Rightarrow> Inl (builtin_error ''TypeError''
                    ''int() argument must be a string, a bytes-like object or a real number''))"

text \<open>
  \<open>HTTPServer.__init__(self, (host, port), RequestHandler)\<close> of the standard library
  binds the socket to the address and puts it into the listening state before it
  returns (\<open>bind_and_activate\<close> is left at its default); an address in use is an OSError.
\<close>

definition HTTPServer_init :: "string \<Rightarrow> int \<Rightarrow> world \<Rightarrow> (exn + unit) \<times> world" where
  "HTTPServer_init host port w =
     (if (host, port) \<in> set (listening w)
      then (Inl (builtin_error ''OSError'' ''[Errno 98] Address already in use''), w)
      else (Inr (), emit (EvBind host port) (w\<lparr>listening := (host, port) # listening w\<rparr>)))"

text \<open>\<open>Server32.__init__(self, path, libtype, host, port, quiet)\<close>.\<close>

definition Server32_init ::
  "environment \<Rightarrow> string \<Rightarrow> (string \<Rightarrow> attr option) \<Rightarrow> string \<Rightarrow> string \<Rightarrow> string \<Rightarrow> pyval \<Rightarrow> bool
     \<Rightarrow> world \<Rightarrow> (exn + Server32) \<times> world" where
  "Server32_init env cls methods p libtype host port q w =
     (case int_of_port port of
        Inl e \<Rightarrow> (Inl e, w)
      | Inr n \<Rightarrow>
         (case HTTPServer_init host n w of
            (Inl e, w1) \<Rightarrow> (Inl e, w1)
          | (Inr u, w1) \<Rightarrow>
             (case LoadLibrary_init env p libtype w1 of
                (Inl e, w2) \<Rightarrow> (Inl e, w2)
              | (Inr l, w2) \<Rightarrow>
                 (Inr \<lparr>class_name = cls, attrs = methods, server_address = (host, n),
                       quiet = q, library = l\<rparr>, w2))))"

subsection \<open>The request handler\<close>

text \<open>\<open>RequestHandler.log_message(self, fmt, *args)\<close>: the body is \<open>pass\<close>.\<close>

definition log_message :: "Server32 \<Rightarrow> string \<Rightarrow> string list \<Rightarrow> world \<Rightarrow> world" where
  "log_message server fmt args w = w"

text \<open>
  \<open>send_response(code)\<close> of the base handler logs the request through \<open>log_message\<close> and
  writes the status line; \<open>send_header\<close>, \<open>end_headers\<close> and \<open>wfile.write\<close> write to the
  connection. (The Server and Date headers the base class adds are left out.)
\<close>

definition send_response :: "Server32 \<Rightarrow> string \<Rightarrow> nat \<Rightarrow> world \<Rightarrow> world" where
  \<open>send_response server self_path code w =
     (let w1 = log_message server ''"%s" %s %s''
                 [''GET '' @ self_path @ '' HTTP/1.1'', string_of_nat code, ''-''] w
      in w1\<lparr>wire := wire w1 @ [StatusLine code]\<rparr>)\<close>

definition send_header :: "string \<Rightarrow> string \<Rightarrow> world \<Rightarrow> world" where
  "send_header k v w = w\<lparr>wire := wire w @ [Header k v]\<rparr>"

definition end_headers :: "world \<Rightarrow> world" where
  "end_headers w = w\<lparr>wire := wire w @ [EndHeaders]\<rparr>"

definition wfile_write :: "string \<Rightarrow> world \<Rightarrow> world" where
  "wfile_write b w = w\<lparr>wire := wire w @ [Body b]\<rparr>"

text \<open>\<open>f(*args)\<close> and \<open>f(**kwargs)\<close>: what the call makes of the two unpickled values.\<close>

definition type_name :: "pyval \<Rightarrow> string" where
  "type_name v =
     (case v of
        PNone \<Rightarrow> ''NoneType'' | PBool b \<Rightarrow> ''bool'' | PInt n \<Rightarrow> ''int'' | PFloat x \<Rightarrow> ''float''
      | PComplex x y \<Rightarrow> ''complex'' | PStr s \<Rightarrow> ''str'' | PTuple xs \<Rightarrow> ''tuple''
      | PList xs \<Rightarrow> ''list'' | PDict kvs \<Rightarrow> ''dict'' | PObject d \<Rightarrow> d)"

definition star_args :: "pyval \<Rightarrow> exn + pyval list" where
  "star_args v =
     (case v of
        PTuple xs \<Rightarrow> Inr xs
      | PList xs \<Rightarrow> Inr xs
      | PStr s \<Rightarrow> Inr (map (\<lambda>c. PStr [c]) s)
      | PDict kvs \<Rightarrow> Inr (map fst kvs)
      | _ \<Rightarrow> Inl (builtin_error ''TypeError''
                    (''argument after * must be an iterable, not '' @ type_name v)))"

definition keyword :: "pyval \<times> pyval \<Rightarrow> (string \<times> pyval) option" where
  "keyword kv = (case fst kv of PStr s \<Rightarrow> Some (s, snd kv) | _ \<Rightarrow> None)"

definition star_kwargs :: "pyval \<Rightarrow> exn + (string \<times> pyval) list" where
  "star_kwargs v =
     (case v of
        PDict kvs \<Rightarrow>
          (case those (map keyword kvs) of
             Some ks \<Rightarrow> Inr ks
           | None \<Rightarrow> Inl (builtin_error ''TypeError'' ''keywords must be strings''))
      | _ \<Rightarrow> Inl (builtin_error ''TypeError''
                    (''argument after ** must be a mapping, not '' @ type_name v)))"

text \<open>
  Line 172, \<open>getattr(self.server, method)(*args, **kwargs)\<close>: the attribute is looked up,
  the arguments are unpacked, the callable is called. Each invocation is traced.
\<close>

definition invoke ::
  "Server32 \<Rightarrow> string \<Rightarrow> pyval \<Rightarrow> pyval \<Rightarrow> world \<Rightarrow> (exn + pyval) \<times> world" where
  "invoke server method args kwargs w =
     (case attrs server method of
        None \<Rightarrow> (Inl (builtin_error ''AttributeError''
                        ([CHR 0x27] @ class_name server @ [CHR 0x27] @ '' object has no attribute '' @
                         [CHR 0x27] @ method @ [CHR 0x27])), w)
      | Some a \<Rightarrow>
         (case star_args args of
            Inl e \<Rightarrow> (Inl e, w)
          | Inr xs \<Rightarrow>
             (case star_kwargs kwargs of
                Inl e \<Rightarrow> (Inl e, w)
              | Inr ks \<Rightarrow>
                 (case a of
                    Value v \<Rightarrow> (Inl (builtin_error ''TypeError''
                                       ([CHR 0x27] @ type_name v @ [CHR 0x27] @ '' object is not callable'')), w)
                  | Method f \<Rightarrow>
                     (case f xs ks (fs w) of
                        (r, f2) \<Rightarrow> (r, emit (EvInvoke method xs ks) (w\<lparr>fs := f2\<rparr>)))))))"

text \<open>
  Lines 169 to 172 of \<open>do_GET\<close>: read the two pickled values of the exchange file and
  call the method. A failure carries the line of \<open>do_GET\<close> that was executing.
\<close>

definition read_and_invoke ::
  "Server32 \<Rightarrow> string \<Rightarrow> string \<Rightarrow> world \<Rightarrow> ((nat \<times> exn) + pyval) \<times> world" where
  "read_and_invoke server method pickle_temp_file w =
     (case open_read (fs w) pickle_temp_file of
        Inl e \<Rightarrow> (Inl (169, e), emit (EvOpen pickle_temp_file ''rb'') w)
      | Inr c \<Rightarrow>
         (let w1 = emit (EvOpen pickle_temp_file ''rb'') w in
          case pickle_load c of
            Inl e \<Rightarrow> (Inl (170, e), w1)
          | Inr (args, c2) \<Rightarrow>
             (case pickle_load c2 of
                Inl e \<Rightarrow> (Inl (171, e), w1)
              | Inr (kwargs, c3) \<Rightarrow>
                 (case invoke server method args kwargs w1 of
                    (Inl e, w2) \<Rightarrow> (Inl (172, e), w2)
                  | (Inr response, w2) \<Rightarrow> (Inr response, w2)))))"

text \<open>Lines 174 to 178: write the response to the exchange file and answer 200.\<close>

definition write_response ::
  "environment \<Rightarrow> Server32 \<Rightarrow> string \<Rightarrow> string \<Rightarrow> string \<Rightarrow> pyval \<Rightarrow> world
     \<Rightarrow> ((nat \<times> exn) + unit) \<times> world" where
  "write_response env server self_path pickle_protocol pickle_temp_file response w =
     (case open_write (fs w) pickle_temp_file (Pickles []) of
        Inl e \<Rightarrow> (Inl (174, e), emit (EvOpen pickle_temp_file ''wb'') w)
      | Inr f2 \<Rightarrow>
         (let w1 = emit (EvOpen pickle_temp_file ''wb'') (w\<lparr>fs := f2\<rparr>) in
          case py_int pickle_protocol of
            Inl e \<Rightarrow> (Inl (175, e), w1)
          | Inr n \<Rightarrow>
             (case pickle_dump (HIGHEST_PROTOCOL env) response n of
                Inl e \<Rightarrow> (Inl (175, e), w1)
              | Inr pv \<Rightarrow>
                 (Inr (), end_headers (send_response server self_path 200
                            (w1\<lparr>fs := (fs w1)(pickle_temp_file \<mapsto> File (Pickles [pv]))\<rparr>))))))"

text \<open>The body of the \<open>try\<close> statement, lines 165 to 178.\<close>

definition try_body ::
  "environment \<Rightarrow> Server32 \<Rightarrow> string \<Rightarrow> string \<Rightarrow> world \<Rightarrow> ((nat \<times> exn) + unit) \<times> world" where
  "try_body env server self_path request w =
     (case split_max CHR '':'' 2 request of
        [method, pickle_protocol, pickle_temp_file] \<Rightarrow>
          (case (if method = ''LIB32_PATH'' then (Inr (PStr (Server32_path server)), w)
                 else read_and_invoke server method pickle_temp_file w) of
             (Inl le, w1) \<Rightarrow> (Inl le, w1)
           | (Inr response, w1) \<Rightarrow>
               write_response env server self_path pickle_protocol pickle_temp_file response w1)
      | parts \<Rightarrow>
          (Inl (165, builtin_error ''ValueError''
                  (''not enough values to unpack (expected 3, got '' @
                   string_of_nat (length parts) @ '')'')), w))"

text \<open>
  The \<open>except Exception\<close> block, lines 181 to 194. The traceback starts with the frame of
  \<open>do_GET\<close> itself; \<open>tb_list[min(len(tb_list)-1, 1)]\<close> picks the entry that is reported.
\<close>

definition extract_tb :: "environment \<Rightarrow> nat \<Rightarrow> exn \<Rightarrow> frame list" where
  "extract_tb env line e =
     \<lparr>tb_file = server32_file env, tb_lineno = line, tb_name = ''do_GET'',
      tb_text = server32_source env line\<rparr> # exc_tb e"

definition select_tb :: "frame list \<Rightarrow> exn + frame" where
  "select_tb tb_list =
     (let i = min (int (length tb_list) - 1) 1 in
      if tb_list = [] then Inl (builtin_error ''IndexError'' ''list index out of range'')
      else Inr (tb_list ! nat (if i < 0 then int (length tb_list) + i else i)))"

definition format_error :: "frame \<Rightarrow> exn \<Rightarrow> string" where
  \<open>format_error tb e =
     (let msg = ''\<newline>  File "'' @ tb_file tb @ ''", line '' @ string_of_nat (tb_lineno tb) @
                '', in '' @ tb_name tb;
          msg2 = (if tb_text tb \<noteq> [] then msg @ ''\<newline>    '' @ tb_text tb else msg)
      in msg2 @ ''\<newline>'' @ exc_name e @ '': '' @ exc_value e)\<close>

definition except_block ::
  "environment \<Rightarrow> Server32 \<Rightarrow> string \<Rightarrow> nat \<Rightarrow> exn \<Rightarrow> world \<Rightarrow> (exn + unit) \<times> world" where
  "except_block env server self_path line e w =
     (let w1 = end_headers (send_header ''Content-type'' ''text/plain''
                 (send_response server self_path 501 w)) in
      case select_tb (extract_tb env line e) of
        Inl e2 \<Rightarrow> (Inl e2, w1)
      | Inr tb \<Rightarrow> (Inr (), wfile_write (format_error tb e) w1))"

text \<open>
  \<open>RequestHandler.do_GET\<close>. \<open>self_path\<close> is the path of the request line. A failure that
  does not derive from \<open>Exception\<close> is not caught and leaves the handler.
\<close>

definition do_GET ::
  "environment \<Rightarrow> Server32 \<Rightarrow> string \<Rightarrow> world \<Rightarrow> (exn + unit) \<times> world" where
  "do_GET env server self_path w =
     (let request = drop 1 self_path in
      if request = ''SHUTDOWN_SERVER'' then (Inr (), emit (EvThreadStart ''shutdown'') w)
      else
        (case try_body env server self_path request w of
           (Inr u, w1) \<Rightarrow> (Inr (), w1)
         | (Inl (line, e), w1) \<Rightarrow>
             if exc_is_Exception e then except_block env server self_path line e w1
             else (Inl e, w1)))"

section \<open>Observations on a run\<close>

text \<open>The events a step added to the trace, and two kinds of event.\<close>

definition new_events :: "world \<Rightarrow> world \<Rightarrow> event list" where
  "new_events w w2 = drop (length (trace w)) (trace w2)"


definition is_open :: "event \<Rightarrow> bool" where
  "is_open ev = (case ev of EvOpen p m \<Rightarrow> True | _ \<Rightarrow> False)"

text \<open>
  Modelled from the spec: the echo method of the example server that the tests call as
  \<open>send_data\<close> (its module is not part of the sources); it returns exactly the positional
  and the named arguments it received.
\<close>

definition echo_method ::
  "pyval list \<Rightarrow> (string \<times> pyval) list \<Rightarrow> filesystem \<Rightarrow> (exn + pyval) \<times> filesystem" where
  "echo_method xs ks f = (Inr (PTuple [PTuple xs, PDict (map (\<lambda>kv. (PStr (fst kv), snd kv)) ks)]), f)"

section \<open>A concrete installation for the examples\<close>

text \<open>
  A Linux interpreter without Python for .NET, working directory \<open>/srv\<close>, with one
  library file; and a server class with three methods, one of which fails inside a
  helper it calls.
\<close>

definition demo_splitext :: "string \<Rightarrow> string \<times> string" where
  "demo_splitext p =
     (let n = length (takeWhile (\<lambda>c. c \<noteq> CHR ''.'' \<and> c \<noteq> CHR ''/'') (rev p)) in
      if Suc n < length p \<and> rev p ! n = CHR ''.'' \<and> rev p ! Suc n \<noteq> CHR ''/''
      then (take (length p - Suc n) p, drop (length p - Suc n) p) else (p, []))"

definition demo_abspath :: "string \<Rightarrow> string" where
  "demo_abspath p = (if take 1 p = ''/'' then p else ''/srv/'' @ p)"

definition demo_env :: environment where
  "demo_env =
     \<lparr>IS_WINDOWS = False, IS_LINUX = True, IS_MAC = False,
      splitext = demo_splitext, abspath = demo_abspath,
      os_path_split = (\<lambda>p. (''/srv'', drop 5 p)),
      sys_executable = ''/usr/bin/python'',
      ctypes_load = (\<lambda>cls p.
         if cls = ''CDLL'' then
           (if p = ''/srv/mathlib.so'' then None
            else Some (builtin_error ''OSError'' (p @ '': wrong ELF class: ELFCLASS32'')))
         else Some (builtin_error ''AttributeError''
                      (''module ctypes has no attribute '' @ cls))),
      clr_importable = False,
      Assembly_LoadFile = (\<lambda>p. Inl (builtin_error ''FileNotFoundException'' p)),
      clr_AddReference = (\<lambda>n. None),
      import_module = (\<lambda>n. None),
      xml_parse = (\<lambda>s. None),
      HIGHEST_PROTOCOL = 4,
      server32_file = ''/srv/msl/loadlib/server32.py'',
      server32_source = (\<lambda>n. [])\<rparr>"

definition demo_world :: world where
  "demo_world =
     \<lparr>fs = [''/srv/mathlib.so'' \<mapsto> File (Text ''ELF''),
            ''/srv/lib32.so'' \<mapsto> File (Text ''ELF'')],
      sys_path = [], logged = [], listening = [], wire = [], console = [], trace = []\<rparr>"

definition demo_failure :: exn where
  "demo_failure =
     \<lparr>exc_name = ''ZeroDivisionError'', exc_value = ''division by zero'', exc_is_Exception = True,
      exc_tb = [\<lparr>tb_file = ''/srv/cpp32.py'', tb_lineno = 12, tb_name = ''divide'', tb_text = []\<rparr>,
                \<lparr>tb_file = ''/srv/helper.py'', tb_lineno = 40, tb_name = ''ratio'', tb_text = []\<rparr>]\<rparr>"

definition demo_methods :: "string \<Rightarrow> attr option" where
  "demo_methods =
     [''add'' \<mapsto> Method (\<lambda>xs ks f.
         case xs of
           [PInt a, PInt b] \<Rightarrow> (Inr (PInt (a + b)), f)
         | _ \<Rightarrow> (Inl (builtin_error ''TypeError'' ''add() takes 2 positional arguments''), f)),
      ''send_data'' \<mapsto> Method echo_method,
      ''divide'' \<mapsto> Method (\<lambda>xs ks f. (Inl demo_failure, f))]"

definition demo_server :: "bool \<Rightarrow> Server32" where
  "demo_server q =
     \<lparr>class_name = ''Cpp32'', attrs = demo_methods, server_address = (''127.0.0.1'', 8080),
      quiet = q,
      library = \<lparr>path = ''/srv/mathlib.so'', lib = CDLL ''/srv/mathlib.so'', net = None\<rparr>\<rparr>"

text \<open>The world after the demo server was constructed in \<open>demo_world\<close>.\<close>

definition demo_running :: world where
  "demo_running =
     demo_world\<lparr>listening := [(''127.0.0.1'', 8080)],
                trace := [EvBind ''127.0.0.1'' 8080, EvCtypes ''CDLL'' ''/srv/mathlib.so'']\<rparr>"

text \<open>
  The running demo server with the exchange file \<open>/tmp/x.pickle\<close> holding a client's
  pickled positional and named arguments.
\<close>

definition demo_request :: "pyval \<Rightarrow> pyval \<Rightarrow> world" where
  "demo_request args kwargs =
     demo_running\<lparr>fs := (fs demo_running)(''/tmp/x.pickle'' \<mapsto> File (Pickles [(2, args), (2, kwargs)]))\<rparr>"







section \<open>Auxiliary facts\<close>







lemma substring_of_self: "substring_of n (n @ b)"
proof (cases "n @ b")
  case Nil
  then show ?thesis by simp
next
  case (Cons c cs)
  have "take (length n) (n @ b) = n" by simp
  then show ?thesis using Cons by simp
qed

lemma substring_of_mid: "substring_of n (a @ n @ b)"
proof (induction a)
  case Nil
  show ?case using substring_of_self by simp
next
  case (Cons x a)
  then show ?case by simp
qed

lemma invoke_wire:
  assumes "invoke server m a k w = (r, w2)"
  shows "wire w2 = wire w \<and> console w2 = console w"
  using assms
  by (auto simp: invoke_def emit_def split: option.splits sum.splits attr.splits prod.splits)

lemma read_and_invoke_wire:
  assumes "read_and_invoke server m file w = (r, w2)"
  shows "wire w2 = wire w \<and> console w2 = console w"
  using assms
  by (auto simp: read_and_invoke_def emit_def Let_def split: sum.splits prod.splits
      dest!: invoke_wire)

lemma write_response_fail_wire:
  assumes "write_response env server sp proto file r w = (Inl le, w1)"
  shows "wire w1 = wire w"
  using assms
  by (auto simp: write_response_def emit_def Let_def split: sum.splits)


lemma try_body_fail_wire:
  assumes "try_body env server sp req w = (Inl le, w1)"
  shows "wire w1 = wire w"
proof (cases "split_max CHR '':'' 2 req")
  case Nil
  then show ?thesis using assms by (simp add: try_body_def)
next
  case (Cons m r1)
  show ?thesis
  proof (cases r1)
    case Nil
    then show ?thesis using assms Cons by (simp add: try_body_def)
  next
    case c2: (Cons p r2)
    show ?thesis
    proof (cases r2)
      case Nil
      then show ?thesis using assms Cons c2 by (simp add: try_body_def)
    next
      case c3: (Cons f r3)
      show ?thesis
      proof (cases r3)
        case Nil
        have sp: "split_max CHR '':'' 2 req = [m, p, f]" using Cons c2 c3 Nil by simp
        show ?thesis
        proof (cases "m = ''LIB32_PATH''")
          case True
          then show ?thesis using assms sp write_response_fail_wire
            by (auto simp: try_body_def)
        next
          case False
          obtain x w2 where ri: "read_and_invoke server m f w = (x, w2)" by (cases "read_and_invoke server m f w")
          have w2: "wire w2 = wire w" using read_and_invoke_wire[OF ri] by simp
          show ?thesis
          proof (cases x)
            case (Inl a)
            then show ?thesis using assms sp False ri w2 by (auto simp: try_body_def)
          next
            case (Inr b)
            then show ?thesis using assms sp False ri w2 write_response_fail_wire[of env server sp p f b w2 le w1]
              by (auto simp: try_body_def)
          qed
        qed
      next
        case (Cons a list)
        then show ?thesis using assms \<open>split_max CHR '':'' 2 req = m # r1\<close> c2 c3 by (simp add: try_body_def)
      qed
    qed
  qed
qed

lemma select_tb_extract:
  "select_tb (extract_tb env line e) =
     Inr (case exc_tb e of [] \<Rightarrow> hd (extract_tb env line e) | f # rest \<Rightarrow> f)"
  by (cases "exc_tb e") (auto simp: select_tb_def extract_tb_def Let_def min_def)

lemma substring_chain:
  "substring_of x2 (x1 @ x2 @ x3 @ x4 @ x5 @ x6 @ x7 @ x8 @ x9 @ x10 @ x11)"
  "substring_of x4 (x1 @ x2 @ x3 @ x4 @ x5 @ x6 @ x7 @ x8 @ x9 @ x10 @ x11)"
  "substring_of x6 (x1 @ x2 @ x3 @ x4 @ x5 @ x6 @ x7 @ x8 @ x9 @ x10 @ x11)"
  "substring_of x9 (x1 @ x2 @ x3 @ x4 @ x5 @ x6 @ x7 @ x8 @ x9 @ x10 @ x11)"
  "substring_of x11 (x1 @ x2 @ x3 @ x4 @ x5 @ x6 @ x7 @ x8 @ x9 @ x10 @ x11)"
  using substring_of_mid[of x2 x1 "x3 @ x4 @ x5 @ x6 @ x7 @ x8 @ x9 @ x10 @ x11"]
    substring_of_mid[of x4 "x1 @ x2 @ x3" "x5 @ x6 @ x7 @ x8 @ x9 @ x10 @ x11"]
    substring_of_mid[of x6 "x1 @ x2 @ x3 @ x4 @ x5" "x7 @ x8 @ x9 @ x10 @ x11"]
    substring_of_mid[of x9 "x1 @ x2 @ x3 @ x4 @ x5 @ x6 @ x7 @ x8" "x10 @ x11"]
    substring_of_mid[of x11 "x1 @ x2 @ x3 @ x4 @ x5 @ x6 @ x7 @ x8 @ x9 @ x10" "[]"]
  by simp_all

lemma format_error_contains:
  "substring_of (exc_name e) (format_error tb e) \<and>
   substring_of (exc_value e) (format_error tb e) \<and>
   substring_of (tb_file tb) (format_error tb e) \<and>
   substring_of (string_of_nat (tb_lineno tb)) (format_error tb e) \<and>
   substring_of (tb_name tb) (format_error tb e)"
proof -
  define T where "T = (if tb_text tb \<noteq> [] then [CHR 0x0A] @ ''    '' @ tb_text tb else [])"
  have fe: \<open>format_error tb e =
      ''\<newline>  File "'' @ tb_file tb @ ''", line '' @ string_of_nat (tb_lineno tb) @ '', in '' @
      tb_name tb @ T @ ''\<newline>'' @ exc_name e @ '': '' @ exc_value e\<close>
    by (simp add: format_error_def Let_def T_def)
  show ?thesis
    unfolding fe by (intro conjI substring_chain)
qed

lemma split_max_two: "split_max sep 2 s = split_max sep (Suc (Suc 0)) s"
  by (simp add: numeral_2_eq_2)











lemmas demo_defs = demo_env_def demo_world_def demo_running_def demo_server_def demo_methods_def
  demo_failure_def demo_splitext_def demo_abspath_def echo_method_def demo_request_def

lemmas handler_defs = do_GET_def try_body_def read_and_invoke_def invoke_def write_response_def
  except_block_def select_tb_def extract_tb_def format_error_def send_response_def send_header_def
  end_headers_def wfile_write_def log_message_def emit_def open_read_def open_write_def
  pickle_load_def pickle_dump_def py_int_def is_digit_def digits_value_def star_args_def
  star_kwargs_def keyword_def Server32_path_def new_events_def builtin_error_def split_max_two








lemma check_config_listening:
  assumes "check_dot_net_config env exe w = (r, w2)"
  shows "listening w2 = listening w"
  using assms
  by (auto simp: check_dot_net_config_def Let_def emit_def logging_warning_def
      split: if_splits sum.splits option.splits)

lemma load_net_listening:
  assumes "load_net env p w = (r, w2)"
  shows "listening w2 = listening w"
proof -
  obtain r1 w1 where cd: "check_dot_net_config env (sys_executable env) (emit (EvLoadFile p) w) = (r1, w1)"
    by (cases "check_dot_net_config env (sys_executable env) (emit (EvLoadFile p) w)")
  have "listening w1 = listening w" using check_config_listening[OF cd] by (simp add: emit_def)
  then show ?thesis
    using assms cd
    by (auto simp: load_net_def Let_def emit_def split: if_splits sum.splits option.splits list.splits prod.splits)
qed


lemma LoadLibrary_init_not_found:
  assumes "\<not> isfile (fs w) (abspath env (default_extension env p))"
  shows "LoadLibrary_init env p libtype w =
        (Inl (builtin_error ''IOError''
               (''Cannot find the shared library '' @ abspath env (default_extension env p) @ [CHR 0x0A])), w)"
  using assms by (simp add: LoadLibrary_init_def Let_def)

lemma LoadLibrary_init_ctypes:
  assumes "isfile (fs w) (abspath env (default_extension env p))"
    and "(libtype, cls) \<in> {(''cdll'', ''CDLL''), (''windll'', ''WinDLL''), (''oledll'', ''OleDLL'')}"
  shows "fst (LoadLibrary_init env p libtype w) =
     (case ctypes_load env cls (abspath env (default_extension env p)) of
        None \<Rightarrow> Inr \<lparr>path = abspath env (default_extension env p),
                     lib = (if libtype = ''cdll'' then CDLL else if libtype = ''windll'' then WinDLL else OleDLL)
                             (abspath env (default_extension env p)),
                     net = None\<rparr>
      | Some e \<Rightarrow> Inl e)"
proof -
  consider "libtype = ''cdll'' \<and> cls = ''CDLL''" | "libtype = ''windll'' \<and> cls = ''WinDLL''"
    | "libtype = ''oledll'' \<and> cls = ''OleDLL''"
    using assms(2) by blast
  then show ?thesis
  proof cases
    case 1
    then show ?thesis using assms(1)
      by (simp add: LoadLibrary_init_def ctypes_open_def Let_def split: option.splits)
  next
    case 2
    then show ?thesis using assms(1)
      by (simp add: LoadLibrary_init_def ctypes_open_def Let_def split: option.splits)
  next
    case 3
    then show ?thesis using assms(1)
      by (simp add: LoadLibrary_init_def ctypes_open_def Let_def split: option.splits)
  qed
qed

lemma LoadLibrary_init_listening:
  assumes "LoadLibrary_init env p libtype w = (r, w2)"
  shows "listening w2 = listening w"
  using assms
  by (auto simp: LoadLibrary_init_def ctypes_open_def is_python_net_installed_def logging_warning_def
      emit_def Let_def split: if_splits option.splits dest!: load_net_listening)

section \<open>The request handler: dispatch, failures, shutdown\<close>



text \<open>
  C2 (as amended). A request other than the shutdown sentinel whose \<open>try\<close> body raises a
  failure that derives from \<open>Exception\<close> (while splitting the request, reading or
  unpickling the exchange file, calling the method, or writing the result): the handler
  returns normally and answers 501, not 200, with a text/plain body that names the file,
  line and function of one traceback entry, the exception's class and its message. The
  entry reported is \<open>tb_list[min(len(tb_list)-1, 1)]\<close>: the frame called directly from
  \<open>do_GET\<close> when the traceback has one, whatever lies below it, and the frame of \<open>do_GET\<close>
  itself when the failure was raised in \<open>do_GET\<close>.
\<close>

theorem failure_response:
  assumes "drop 1 self_path \<noteq> ''SHUTDOWN_SERVER''"
    and "try_body env server self_path (drop 1 self_path) w = (Inl (line, e), w1)"
    and "exc_is_Exception e"
  shows "fst (do_GET env server self_path w) = Inr () \<and>
         wire (snd (do_GET env server self_path w)) =
           wire w @ [StatusLine 501, Header ''Content-type'' ''text/plain'', EndHeaders,
                     Body (format_error
                             (case exc_tb e of [] \<Rightarrow> hd (extract_tb env line e) | f # below \<Rightarrow> f) e)] \<and>
         fs (snd (do_GET env server self_path w)) = fs w1 \<and>
         (let tb = (case exc_tb e of [] \<Rightarrow> hd (extract_tb env line e) | f # below \<Rightarrow> f) in
            substring_of (exc_name e) (format_error tb e) \<and>
            substring_of (exc_value e) (format_error tb e) \<and>
            substring_of (tb_file tb) (format_error tb e) \<and>
            substring_of (string_of_nat (tb_lineno tb)) (format_error tb e) \<and>
            substring_of (tb_name tb) (format_error tb e))"
  using assms try_body_fail_wire[OF assms(2)] format_error_contains
  by (simp add: do_GET_def except_block_def select_tb_extract send_response_def log_message_def
      send_header_def end_headers_def wfile_write_def Let_def)

text \<open>
  The method \<open>divide\<close> of the demo server fails in a helper it calls: the traceback below
  \<open>do_GET\<close> is \<open>divide\<close> (cpp32.py, line 12), then \<open>ratio\<close> (helper.py, line 40).
\<close>

theorem failure_response_witness:
  \<open>drop 1 ''/divide:2:/tmp/x.pickle'' \<noteq> ''SHUTDOWN_SERVER'' \<and>
   fst (try_body demo_env (demo_server True) ''/divide:2:/tmp/x.pickle''
          (drop 1 ''/divide:2:/tmp/x.pickle'') (demo_request (PTuple [PInt 1, PInt 0]) (PDict []))) =
     Inl (172, demo_failure) \<and>
   exc_is_Exception demo_failure \<and>
   fst (do_GET demo_env (demo_server True) ''/divide:2:/tmp/x.pickle''
          (demo_request (PTuple [PInt 1, PInt 0]) (PDict []))) = Inr () \<and>
   wire (snd (do_GET demo_env (demo_server True) ''/divide:2:/tmp/x.pickle''
          (demo_request (PTuple [PInt 1, PInt 0]) (PDict [])))) =
     [StatusLine 501, Header ''Content-type'' ''text/plain'', EndHeaders,
      Body (''\<newline>  File "/srv/cpp32.py", line 12, in divide'' @
            ''\<newline>ZeroDivisionError: division by zero'')]\<close>
proof -
  let ?p = "''/divide:2:/tmp/x.pickle''"
  let ?w = "demo_request (PTuple [PInt 1, PInt 0]) (PDict [])"
  have h1: "drop 1 ?p \<noteq> ''SHUTDOWN_SERVER''" by simp
  have t: "fst (try_body demo_env (demo_server True) ?p (drop 1 ?p) ?w) = Inl (172, demo_failure)"
    by (simp add: handler_defs demo_defs Let_def)
  have h2: "try_body demo_env (demo_server True) ?p (drop 1 ?p) ?w =
      (Inl (172, demo_failure), snd (try_body demo_env (demo_server True) ?p (drop 1 ?p) ?w))"
    using t by (simp add: prod_eq_iff)
  have h3: "exc_is_Exception demo_failure" by (simp add: demo_failure_def)
  have wi: "wire ?w = []" by (simp add: demo_request_def demo_running_def demo_world_def)
  have tb: "exc_tb demo_failure =
      [\<lparr>tb_file = ''/srv/cpp32.py'', tb_lineno = 12, tb_name = ''divide'', tb_text = []\<rparr>,
       \<lparr>tb_file = ''/srv/helper.py'', tb_lineno = 40, tb_name = ''ratio'', tb_text = []\<rparr>]"
    by (simp add: demo_failure_def)
  have fe: \<open>format_error \<lparr>tb_file = ''/srv/cpp32.py'', tb_lineno = 12, tb_name = ''divide'', tb_text = []\<rparr>
        demo_failure =
      ''\<newline>  File "/srv/cpp32.py", line 12, in divide'' @
      ''\<newline>ZeroDivisionError: division by zero''\<close>
    by (simp add: format_error_def demo_failure_def string_of_nat.simps digit_char_def Let_def)
  show ?thesis
    using failure_response[OF h1 h2 h3] t h3 wi tb fe by simp
qed

text \<open>
  Against C2 as stated (the location is that of the innermost frame in user code, the
  dispatch frame skipped): for the failure in the helper the body names \<open>divide\<close>, the
  frame called from \<open>do_GET\<close>, and not \<open>ratio\<close>, the innermost frame; and a request whose
  exchange file does not exist is answered with the location of \<open>do_GET\<close> itself.
\<close>

theorem failure_location_counterexample:
  \<open>wire (snd (do_GET demo_env (demo_server True) ''/divide:2:/tmp/x.pickle''
          (demo_request (PTuple [PInt 1, PInt 0]) (PDict [])))) \<noteq>
     [StatusLine 501, Header ''Content-type'' ''text/plain'', EndHeaders,
      Body (format_error (last (exc_tb demo_failure)) demo_failure)] \<and>
   wire (snd (do_GET demo_env (demo_server True) ''/add:2:/tmp/missing.pickle'' demo_running)) =
     [StatusLine 501, Header ''Content-type'' ''text/plain'', EndHeaders,
      Body (''\<newline>  File "/srv/msl/loadlib/server32.py", line 169, in do_GET'' @
            ''\<newline>FileNotFoundError: [Errno 2] No such file or directory: '' @
            [CHR 0x27] @ ''/tmp/missing.pickle'' @ [CHR 0x27])]\<close>
  by (simp add: handler_defs demo_defs string_of_nat.simps digit_char_def Let_def)






text \<open>
  C10. When the request is the shutdown sentinel the handler returns without writing
  anything to the connection, leaves every file as it was and opens none. Conversely, a
  request after which the connection or a file has changed, or during which a file was
  opened, is not the sentinel.
\<close>

theorem shutdown_sends_nothing:
  "(drop 1 self_path = ''SHUTDOWN_SERVER'' \<longrightarrow>
      fst (do_GET env server self_path w) = Inr () \<and>
      wire (snd (do_GET env server self_path w)) = wire w \<and>
      fs (snd (do_GET env server self_path w)) = fs w \<and>
      \<not> list_ex is_open (new_events w (snd (do_GET env server self_path w)))) \<and>
   (wire (snd (do_GET env server self_path w)) \<noteq> wire w \<or>
    fs (snd (do_GET env server self_path w)) \<noteq> fs w \<or>
    list_ex is_open (new_events w (snd (do_GET env server self_path w)))
      \<longrightarrow> drop 1 self_path \<noteq> ''SHUTDOWN_SERVER'')"
  by (auto simp: do_GET_def emit_def new_events_def is_open_def)

theorem shutdown_sends_nothing_witness:
  "drop 1 ''/SHUTDOWN_SERVER'' = ''SHUTDOWN_SERVER'' \<and>
   fst (do_GET demo_env (demo_server True) ''/SHUTDOWN_SERVER'' demo_running) = Inr () \<and>
   wire (snd (do_GET demo_env (demo_server True) ''/SHUTDOWN_SERVER'' demo_running)) = [] \<and>
   fs (snd (do_GET demo_env (demo_server True) ''/SHUTDOWN_SERVER'' demo_running)) = fs demo_running \<and>
   wire (snd (do_GET demo_env (demo_server True) ''/LIB32_PATH:2:/tmp/x.pickle'' demo_running))
     \<noteq> wire demo_running \<and>
   drop 1 ''/LIB32_PATH:2:/tmp/x.pickle'' \<noteq> ''SHUTDOWN_SERVER''"
  using shutdown_sends_nothing[of "''/SHUTDOWN_SERVER''" demo_env "demo_server True" demo_running]
    shutdown_sends_nothing[of "''/LIB32_PATH:2:/tmp/x.pickle''" demo_env "demo_server True" demo_running]
  by (simp add: handler_defs demo_defs Let_def)

section \<open>The library loader and the construction of the server\<close>

text \<open>
  C4 (as amended). A path without extension gets the suffix of the platform (.dll, .so
  or .dylib; none on another platform), and the loader works on \<open>os.path.abspath\<close> of the
  result. If that path is not an existing file, load fails with the IOError
  \<open>Cannot find the shared library <path>\<close>, for every library type, and nothing else
  happens. If it is an existing file and the type is cdll, windll or oledll, the file is
  handed to ctypes: when ctypes accepts it, load succeeds and the path of the handle is
  the resolved path; when ctypes raises, load fails with that error.
\<close>

theorem load_resolves_path:
  "(default_extension env p =
      (if snd (splitext env p) = []
       then p @ (if IS_WINDOWS env then ''.dll'' else if IS_LINUX env then ''.so''
                 else if IS_MAC env then ''.dylib'' else [])
       else p)) \<and>
   (\<not> isfile (fs w) (abspath env (default_extension env p)) \<longrightarrow>
      LoadLibrary_init env p libtype w =
        (Inl (builtin_error ''IOError''
               (''Cannot find the shared library '' @ abspath env (default_extension env p) @ [CHR 0x0A])), w)) \<and>
   (isfile (fs w) (abspath env (default_extension env p)) \<and>
    (libtype, cls) \<in> {(''cdll'', ''CDLL''), (''windll'', ''WinDLL''), (''oledll'', ''OleDLL'')} \<longrightarrow>
      (case ctypes_load env cls (abspath env (default_extension env p)) of
         None \<Rightarrow> (case fst (LoadLibrary_init env p libtype w) of
                    Inr l \<Rightarrow> path l = abspath env (default_extension env p)
                  | Inl e \<Rightarrow> False)
       | Some e \<Rightarrow> fst (LoadLibrary_init env p libtype w) = Inl e))"
proof (intro conjI impI)
  show "default_extension env p =
      (if snd (splitext env p) = []
       then p @ (if IS_WINDOWS env then ''.dll'' else if IS_LINUX env then ''.so''
                 else if IS_MAC env then ''.dylib'' else [])
       else p)"
    by (simp add: default_extension_def)
next
  assume "\<not> isfile (fs w) (abspath env (default_extension env p))"
  then show "LoadLibrary_init env p libtype w =
        (Inl (builtin_error ''IOError''
               (''Cannot find the shared library '' @ abspath env (default_extension env p) @ [CHR 0x0A])), w)"
    by (rule LoadLibrary_init_not_found)
next
  assume a: "isfile (fs w) (abspath env (default_extension env p)) \<and>
    (libtype, cls) \<in> {(''cdll'', ''CDLL''), (''windll'', ''WinDLL''), (''oledll'', ''OleDLL'')}"
  show "case ctypes_load env cls (abspath env (default_extension env p)) of
         None \<Rightarrow> (case fst (LoadLibrary_init env p libtype w) of
                    Inr l \<Rightarrow> path l = abspath env (default_extension env p)
                  | Inl e \<Rightarrow> False)
       | Some e \<Rightarrow> fst (LoadLibrary_init env p libtype w) = Inl e"
    using LoadLibrary_init_ctypes[of w env p libtype cls] a
    by (simp split: option.splits)
qed

theorem load_resolves_path_witness:
  "\<not> isfile (fs demo_world) (abspath demo_env (default_extension demo_env ''nolib'')) \<and>
   LoadLibrary_init demo_env ''nolib'' ''cdll'' demo_world =
     (Inl (builtin_error ''IOError'' (''Cannot find the shared library /srv/nolib.so'' @ [CHR 0x0A])),
      demo_world) \<and>
   isfile (fs demo_world) (abspath demo_env (default_extension demo_env ''mathlib'')) \<and>
   (''cdll'', ''CDLL'') \<in> {(''cdll'', ''CDLL''), (''windll'', ''WinDLL''), (''oledll'', ''OleDLL'')} \<and>
   ctypes_load demo_env ''CDLL'' ''/srv/mathlib.so'' = None \<and>
   default_extension demo_env ''mathlib'' = ''mathlib.so'' \<and>
   (case fst (LoadLibrary_init demo_env ''mathlib'' ''cdll'' demo_world) of
      Inr l \<Rightarrow> path l = ''/srv/mathlib.so''
    | Inl e \<Rightarrow> False)"
proof -
  have de: "default_extension demo_env ''mathlib'' = ''mathlib.so''"
    by (simp add: demo_env_def default_extension_def demo_splitext_def Let_def)
  have ab: "abspath demo_env (default_extension demo_env ''mathlib'') = ''/srv/mathlib.so''"
       "abspath demo_env (default_extension demo_env ''nolib'') = ''/srv/nolib.so''"
    by (simp_all add: demo_env_def default_extension_def demo_splitext_def demo_abspath_def Let_def)
  have f1: "\<not> isfile (fs demo_world) (abspath demo_env (default_extension demo_env ''nolib''))"
    and f2: "isfile (fs demo_world) (abspath demo_env (default_extension demo_env ''mathlib''))"
    unfolding ab by (simp_all add: isfile_def demo_world_def)
  have m: "(''cdll'', ''CDLL'') \<in> {(''cdll'', ''CDLL''), (''windll'', ''WinDLL''), (''oledll'', ''OleDLL'')}"
    by simp
  have ct: "ctypes_load demo_env ''CDLL'' (abspath demo_env (default_extension demo_env ''mathlib'')) = None"
    unfolding ab by (simp add: demo_env_def)
  have r1: "LoadLibrary_init demo_env ''nolib'' ''cdll'' demo_world =
        (Inl (builtin_error ''IOError''
               (''Cannot find the shared library '' @
                abspath demo_env (default_extension demo_env ''nolib'') @ [CHR 0x0A])), demo_world)"
    using load_resolves_path[of demo_env "''nolib''" demo_world "''cdll''" "''CDLL''"] f1 by blast
  have r2: "case ctypes_load demo_env ''CDLL'' (abspath demo_env (default_extension demo_env ''mathlib'')) of
         None \<Rightarrow> (case fst (LoadLibrary_init demo_env ''mathlib'' ''cdll'' demo_world) of
                    Inr l \<Rightarrow> path l = abspath demo_env (default_extension demo_env ''mathlib'')
                  | Inl e \<Rightarrow> False)
       | Some e \<Rightarrow> fst (LoadLibrary_init demo_env ''mathlib'' ''cdll'' demo_world) = Inl e"
    using load_resolves_path[of demo_env "''mathlib''" demo_world "''cdll''" "''CDLL''"] f2 m by blast
  have r3: "case fst (LoadLibrary_init demo_env ''mathlib'' ''cdll'' demo_world) of
                    Inr l \<Rightarrow> path l = abspath demo_env (default_extension demo_env ''mathlib'')
                  | Inl e \<Rightarrow> False"
    using r2 unfolding ct by simp
  show ?thesis
    using f1 f2 m ct[unfolded ab] de r1[unfolded ab] r3[unfolded ab] by simp
qed

text \<open>
  Against C4 as stated (an existing file and a valid kind make load succeed): the file
  \<open>/srv/lib32.so\<close> exists and the kind is cdll, but the platform refuses the image (a
  library of the other word width, as in the tests of load failures); load fails, and
  not with the error of a missing file.
\<close>

theorem existing_file_load_fails_counterexample:
  "isfile (fs demo_world) (abspath demo_env (default_extension demo_env ''lib32'')) \<and>
   fst (LoadLibrary_init demo_env ''lib32'' ''cdll'' demo_world) =
     Inl (builtin_error ''OSError'' ''/srv/lib32.so: wrong ELF class: ELFCLASS32'')"
  by (simp add: LoadLibrary_init_def default_extension_def demo_env_def demo_splitext_def
      demo_abspath_def isfile_def demo_world_def ctypes_open_def Let_def)

text \<open>
  C6 (as amended). \<open>Server32.__init__\<close> first runs the constructor of the HTTP server,
  which binds the address and starts listening on it, and then constructs the loader.
  If the loader fails, the constructor raises the loader's error and returns no server,
  so that nothing can be dispatched; the socket it bound is listening by then.
\<close>

theorem loader_failure_propagates:
  assumes "int_of_port port = Inr n"
    and "HTTPServer_init host n w = (Inr (), w1)"
    and "LoadLibrary_init env p libtype w1 = (Inl e, w2)"
  shows "Server32_init env cls methods p libtype host port q w = (Inl e, w2) \<and>
         (host, n) \<in> set (listening w2) \<and> (host, n) \<notin> set (listening w)"
proof -
  have "listening w2 = listening w1" using LoadLibrary_init_listening[OF assms(3)] .
  moreover have "(host, n) \<in> set (listening w1) \<and> (host, n) \<notin> set (listening w)" using assms(2)
    by (auto simp: HTTPServer_init_def emit_def split: if_splits)
  ultimately show ?thesis using assms by (simp add: Server32_init_def)
qed

theorem loader_failure_propagates_witness:
  "int_of_port (PStr ''8080'') = Inr 8080 \<and>
   HTTPServer_init ''127.0.0.1'' 8080 demo_world =
     (Inr (), demo_world\<lparr>listening := [(''127.0.0.1'', 8080)], trace := [EvBind ''127.0.0.1'' 8080]\<rparr>) \<and>
   Server32_init demo_env ''Cpp32'' demo_methods ''nolib'' ''cdll'' ''127.0.0.1'' (PStr ''8080'') True
     demo_world =
     (Inl (builtin_error ''IOError'' (''Cannot find the shared library /srv/nolib.so'' @ [CHR 0x0A])),
      demo_world\<lparr>listening := [(''127.0.0.1'', 8080)], trace := [EvBind ''127.0.0.1'' 8080]\<rparr>)"
proof -
  let ?w1 = "demo_world\<lparr>listening := [(''127.0.0.1'', 8080)], trace := [EvBind ''127.0.0.1'' 8080]\<rparr>"
  have h1: "int_of_port (PStr ''8080'') = Inr 8080"
    by (simp add: int_of_port_def py_int_def is_digit_def digits_value_def)
  have h2: "HTTPServer_init ''127.0.0.1'' 8080 demo_world = (Inr (), ?w1)"
    by (simp add: HTTPServer_init_def emit_def demo_world_def)
  have h3: "LoadLibrary_init demo_env ''nolib'' ''cdll'' ?w1 =
      (Inl (builtin_error ''IOError'' (''Cannot find the shared library /srv/nolib.so'' @ [CHR 0x0A])), ?w1)"
    by (simp add: LoadLibrary_init_def default_extension_def demo_env_def demo_splitext_def
        demo_abspath_def isfile_def demo_world_def Let_def)
  show ?thesis
    using loader_failure_propagates[OF h1 h2 h3, of "''Cpp32''" demo_methods True] h1 h2 by simp
qed

text \<open>
  Against C6 as stated (the server must not begin listening when the loader fails):
  before the construction nothing listens; the loader fails on a missing library, the
  constructor raises, and the address is bound and listening.
\<close>

theorem listening_before_load_counterexample:
  "listening demo_world = [] \<and>
   fst (Server32_init demo_env ''Cpp32'' demo_methods ''nolib'' ''cdll'' ''127.0.0.1'' (PStr ''8080'') True
          demo_world) =
     Inl (builtin_error ''IOError'' (''Cannot find the shared library /srv/nolib.so'' @ [CHR 0x0A])) \<and>
   listening (snd (Server32_init demo_env ''Cpp32'' demo_methods ''nolib'' ''cdll'' ''127.0.0.1''
          (PStr ''8080'') True demo_world)) = [(''127.0.0.1'', 8080)]"
  by (simp add: Server32_init_def int_of_port_def py_int_def is_digit_def digits_value_def
      HTTPServer_init_def emit_def LoadLibrary_init_def default_extension_def demo_env_def
      demo_splitext_def demo_abspath_def isfile_def demo_world_def Let_def)

text \<open>
  C7 (contradicted by the code). For the library type net without Python for .NET the
  loader raises what it raises for a library type it does not know: TypeError with the
  message \<open>Invalid library type: <libtype>\<close>. The unavailable runtime shows only in a
  logged warning.
\<close>

theorem net_without_pythonnet:
  assumes "isfile (fs w) (abspath env (default_extension env p))" and "\<not> clr_importable env"
    and "libtype \<notin> {''cdll'', ''windll'', ''oledll'', ''net''}"
  shows "fst (LoadLibrary_init env p ''net'' w) = Inl (builtin_error ''TypeError'' ''Invalid library type: net'') \<and>
         fst (LoadLibrary_init env p libtype w) = Inl (builtin_error ''TypeError'' (''Invalid library type: '' @ libtype))"
  using assms
  by (simp add: LoadLibrary_init_def is_python_net_installed_def)

theorem net_without_pythonnet_witness:
  "isfile (fs demo_world) (abspath demo_env (default_extension demo_env ''mathlib'')) \<and>
   \<not> clr_importable demo_env \<and>
   ''fortran'' \<notin> {''cdll'', ''windll'', ''oledll'', ''net''} \<and>
   fst (LoadLibrary_init demo_env ''mathlib'' ''net'' demo_world) =
     Inl (builtin_error ''TypeError'' ''Invalid library type: net'') \<and>
   fst (LoadLibrary_init demo_env ''mathlib'' ''fortran'' demo_world) =
     Inl (builtin_error ''TypeError'' ''Invalid library type: fortran'')"
proof -
  have h1: "isfile (fs demo_world) (abspath demo_env (default_extension demo_env ''mathlib''))"
    by (simp add: demo_env_def default_extension_def demo_splitext_def demo_abspath_def Let_def
        isfile_def demo_world_def)
  have h2: "\<not> clr_importable demo_env" by (simp add: demo_env_def)
  have h3: "''fortran'' \<notin> {''cdll'', ''windll'', ''oledll'', ''net''}" by simp
  show ?thesis
    using net_without_pythonnet[OF h1 h2 h3] h1 h2 by simp
qed





end
